theory Spec2Isabelle
  imports Main "HOL-Library.Sublist"
begin

section \<open>JavaScript values and built-ins used by server.js\<close>

text \<open>
  A string is the list of its UTF-16 code units, one \<open>char\<close> each, so that \<open>length\<close>
  is JavaScript's \<open>.length\<close>.

  A parsed JSON document. \<open>None\<close> of type \<open>json option\<close> stands for JavaScript's
  \<open>undefined\<close>, \<open>JNull\<close> for \<open>null\<close>. Numbers are the integers that JavaScript
  prints in plain decimal; object entries are kept in source order.
\<close>

datatype json =
    JNull
  | JBool bool
  | JNum int
  | JStr string
  | JArr "json list"
  | JObj "(string \<times> json) list"

type_synonym jsval = "json option"

text \<open>ToBoolean: \<open>undefined\<close>, \<open>null\<close>, \<open>false\<close>, \<open>0\<close> and \<open>""\<close> are falsy.\<close>

fun truthy :: "json \<Rightarrow> bool" where
  "truthy JNull = False"
| "truthy (JBool b) = b"
| "truthy (JNum n) = (n \<noteq> 0)"
| "truthy (JStr s) = (s \<noteq> [])"
| "truthy (JArr xs) = True"
| "truthy (JObj kvs) = True"

text \<open>\<open>v || d\<close> on a possibly undefined value.\<close>

fun js_or :: "jsval \<Rightarrow> json \<Rightarrow> json" where
  "js_or None d = d"
| "js_or (Some v) d = (if truthy v then v else d)"

text \<open>
  A request field of string type: \<open>!s\<close> holds when the field is missing, \<open>null\<close> or the
  empty string. \<open>truthy_str\<close> returns the string exactly when \<open>!s\<close> is false.
\<close>

fun truthy_str :: "string option \<Rightarrow> string option" where
  "truthy_str None = None"
| "truthy_str (Some s) = (if s = [] then None else Some s)"

text \<open>\<open>s || d\<close> for a string that may be undefined, and \<open>n || d\<close> for a number.\<close>

fun or_str :: "string option \<Rightarrow> string \<Rightarrow> string" where
  "or_str None d = d"
| "or_str (Some s) d = (if s = [] then d else s)"

text \<open>Number.prototype.toString for integers.\<close>

fun digits :: "nat \<Rightarrow> string" where
  "digits n =
     (if n < 10 then [''0123456789'' ! n]
      else digits (n div 10) @ [''0123456789'' ! (n mod 10)])"

declare digits.simps [simp del]

definition number_toString :: "int \<Rightarrow> string" where
  "number_toString n = (if n < 0 then CHR ''-'' # digits (nat (- n)) else digits (nat n))"

fun or_num :: "int option \<Rightarrow> string \<Rightarrow> string" where
  "or_num None d = d"
| "or_num (Some n) d = (if n = 0 then d else number_toString n)"

text \<open>Array.prototype.join on an array of strings.\<close>

fun join :: "string \<Rightarrow> string list \<Rightarrow> string" where
  "join sep [] = []"
| "join sep [x] = x"
| "join sep (x # y # ys) = x @ sep @ join sep (y # ys)"

text \<open>String.prototype.includes.\<close>

fun includes_str :: "string \<Rightarrow> string \<Rightarrow> bool" where
  "includes_str [] sub = (sub = [])"
| "includes_str (c # cs) sub = (if prefix sub (c # cs) then True else includes_str cs sub)"

text \<open>String.prototype.split with a one-character separator.\<close>

fun split :: "char \<Rightarrow> string \<Rightarrow> string list" where
  "split sep [] = [[]]"
| "split sep (c # cs) =
     (if c = sep then [] # split sep cs
      else (case split sep cs of
              [] \<Rightarrow> [[c]]
            | w # ws \<Rightarrow> (c # w) # ws))"

text \<open>
  Property read \<open>v.name\<close> on a value that is neither \<open>null\<close> nor \<open>undefined\<close>, for the
  names \<open>output\<close>, \<open>content\<close> and \<open>text\<close>, which no built-in prototype defines: only an
  object can hold them. JSON.parse keeps the last of several equal keys.
\<close>

fun get_prop :: "string \<Rightarrow> json \<Rightarrow> jsval" where
  "get_prop name (JObj kvs) = map_of (rev kvs) name"
| "get_prop name v = None"

text \<open>Element read \<open>v[0]\<close>: first element of an array, first character of a string,
  property \<open>"0"\<close> of an object.\<close>

fun index0 :: "json \<Rightarrow> jsval" where
  "index0 (JArr []) = None"
| "index0 (JArr (x # xs)) = Some x"
| "index0 (JStr []) = None"
| "index0 (JStr (c # cs)) = Some (JStr [c])"
| "index0 (JObj kvs) = map_of (rev kvs) ''0''"
| "index0 v = None"

text \<open>Optional chaining \<open>v?.access\<close>: \<open>undefined\<close> when \<open>v\<close> is \<open>null\<close> or \<open>undefined\<close>.\<close>

fun opt_chain :: "jsval \<Rightarrow> (json \<Rightarrow> jsval) \<Rightarrow> jsval" where
  "opt_chain None f = None"
| "opt_chain (Some JNull) f = None"
| "opt_chain (Some v) f = f v"

text \<open>JSON.stringify.\<close>

definition hex_digit :: "nat \<Rightarrow> char" where
  "hex_digit n = ''0123456789abcdef'' ! (n mod 16)"

definition escape_char :: "char \<Rightarrow> string" where
  "escape_char c =
     (if c = CHR 0x22 then [CHR 0x5C, CHR 0x22]
      else if c = CHR 0x5C then [CHR 0x5C, CHR 0x5C]
      else if c = CHR 0x08 then [CHR 0x5C, CHR ''b'']
      else if c = CHR 0x0C then [CHR 0x5C, CHR ''f'']
      else if c = CHR 0x0A then [CHR 0x5C, CHR ''n'']
      else if c = CHR 0x0D then [CHR 0x5C, CHR ''r'']
      else if c = CHR 0x09 then [CHR 0x5C, CHR ''t'']
      else if (of_char c :: nat) < 32
        then [CHR 0x5C, CHR ''u'', CHR ''0'', CHR ''0'',
              hex_digit (of_char c div 16), hex_digit (of_char c)]
      else [c])"

definition quote :: "string \<Rightarrow> string" where
  "quote s = CHR 0x22 # concat (map escape_char s) @ [CHR 0x22]"

fun JSON_stringify :: "json \<Rightarrow> string" where
  "JSON_stringify JNull = ''null''"
| "JSON_stringify (JBool b) = (if b then ''true'' else ''false'')"
| "JSON_stringify (JNum n) = number_toString n"
| "JSON_stringify (JStr s) = quote s"
| "JSON_stringify (JArr xs) = ''['' @ join '','' (map JSON_stringify xs) @ '']''"
| "JSON_stringify (JObj kvs) =
     ''{'' @ join '','' (map (\<lambda>(k, v). quote k @ '':'' @ JSON_stringify v) kvs) @ ''}''"

section \<open>Data model (the Mongoose schemas)\<close>

text \<open>
  Every document carries the \<open>_id\<close> Mongoose adds and the \<open>createdAt\<close> default
  \<open>Date.now\<close>. \<open>recipeText\<close> and \<open>mealTimes\<close> are not required and may be unset.
\<close>

record recipe =
  recipe_id :: nat
  ingredients :: "string list"
  recipeText :: "string option"
  recipe_createdAt :: nat

record preference =
  preference_id :: nat
  dietary :: "string list"
  equipment :: "string list"
  budget :: int
  cookingHours :: int
  mealTimes :: jsval
  preference_createdAt :: nat

record user =
  user_id :: nat
  email :: string
  passwordHash :: string
  user_createdAt :: nat

text \<open>The three collections, in insertion order, and the next fresh document identifier.\<close>

record db =
  recipes :: "recipe list"
  preferences :: "preference list"
  users :: "user list"
  next_id :: nat

section \<open>Requests, responses and the environment of a request\<close>

text \<open>
  \<open>req.headers.authorization\<close> and the fields the routes destructure from \<open>req.body\<close>,
  at the types of the data model. \<open>None\<close> is a field that is missing or \<open>null\<close>;
  \<open>ingredients\<close> is \<open>None\<close> also when it is not an array.
\<close>

record request =
  authorization :: "string option"
  body_email :: "string option"
  body_password :: "string option"
  body_dietary :: "string list option"
  body_equipment :: "string list option"
  body_budget :: "int option"
  body_cookingHours :: "int option"
  body_mealTimes :: jsval
  body_ingredients :: "string list option"

text \<open>What the catch block of /api/recipe echoes as \<open>error.message\<close>.\<close>

datatype exn =
    ReadOfNull
  | FetchFailed string
  | SaveFailed json

text \<open>The JSON envelope with its status code.\<close>

record response =
  status :: nat
  success :: bool
  message :: "string option"
  token :: "string option"
  recipe_field :: jsval
  error_field :: "exn option"

definition reply :: "nat \<Rightarrow> bool \<Rightarrow> string \<Rightarrow> response" where
  "reply st ok msg =
     \<lparr>status = st, success = ok, message = Some msg, token = None,
      recipe_field = None, error_field = None\<rparr>"

definition reply_token :: "string \<Rightarrow> response" where
  "reply_token t =
     \<lparr>status = 200, success = True, message = None, token = Some t,
      recipe_field = None, error_field = None\<rparr>"

definition reply_recipe :: "json \<Rightarrow> response" where
  "reply_recipe t =
     \<lparr>status = 200, success = True, message = None, token = None,
      recipe_field = Some t, error_field = None\<rparr>"

definition reply_error :: "exn \<Rightarrow> response" where
  "reply_error x =
     \<lparr>status = 500, success = False, message = Some ''Server error'', token = None,
      recipe_field = None, error_field = Some x\<rparr>"

text \<open>The payload jsonwebtoken signs: the \<open>id\<close> given, issue time and expiry in seconds.\<close>

record jwt_payload =
  jwt_id :: nat
  iat :: nat
  exp :: nat

text \<open>What \<open>await fetch(...)\<close> followed by \<open>await response.json()\<close> yields: a rejection
  (network failure, body that is not JSON) or the parsed body.\<close>

datatype fetched = Rejected string | Parsed json

text \<open>
  The libraries and the outside world, as one request sees them: the clock
  (milliseconds), bcryptjs, jsonwebtoken with \<open>process.env.JWT_SECRET\<close> (\<open>jwt_verify\<close> is
  \<open>None\<close> where \<open>jwt.verify\<close> throws: bad signature, malformed or expired token), and the
  answer of the text-generation endpoint to a prompt.
\<close>

record env =
  now :: nat
  bcrypt_genSalt :: "nat \<Rightarrow> string"
  bcrypt_hash :: "string \<Rightarrow> string \<Rightarrow> string"
  bcrypt_compare :: "string \<Rightarrow> string \<Rightarrow> bool"
  jwt_sign :: "jwt_payload \<Rightarrow> string"
  jwt_verify :: "string \<Rightarrow> jwt_payload option"
  fetch :: "string \<Rightarrow> string \<Rightarrow> fetched"

text \<open>The calls a handler makes to bcryptjs and to the endpoint, in order.\<close>

datatype call =
    GenSalt nat
  | Hash string string
  | Compare string string
  | Post string string

record outcome =
  resp :: response
  store :: db
  calls :: "call list"

section \<open>Store operations\<close>

text \<open>\<open>User.findOne({ email })\<close>.\<close>

definition findOne :: "string \<Rightarrow> user list \<Rightarrow> user option" where
  "findOne e us = find (\<lambda>u. email u = e) us"

text \<open>\<open>User.findByIdAndUpdate(id, update)\<close>: updates the document with that \<open>_id\<close>, if any.\<close>

fun findByIdAndUpdate :: "nat \<Rightarrow> (user \<Rightarrow> user) \<Rightarrow> user list \<Rightarrow> user list" where
  "findByIdAndUpdate i f [] = []"
| "findByIdAndUpdate i f (u # us) =
     (if user_id u = i then f u # us else u # findByIdAndUpdate i f us)"

text \<open>\<open>UserPreference.findOne().sort({ createdAt: -1 })\<close>: a document with the greatest
  \<open>createdAt\<close> (the earliest inserted among equals), \<open>null\<close> on an empty collection.\<close>

fun latest :: "preference list \<Rightarrow> preference option" where
  "latest [] = None"
| "latest (p # ps) =
     (case latest ps of
        None \<Rightarrow> Some p
      | Some q \<Rightarrow> if preference_createdAt p < preference_createdAt q then Some q else Some p)"

text \<open>Mongoose's cast of a value to a \<open>String\<close> path: \<open>Inl\<close> where the cast fails and
  \<open>save\<close> rejects.\<close>

fun cast_string :: "json \<Rightarrow> unit + string option" where
  "cast_string JNull = Inr None"
| "cast_string (JStr s) = Inr (Some s)"
| "cast_string (JNum n) = Inr (Some (number_toString n))"
| "cast_string (JBool b) = Inr (Some (if b then ''true'' else ''false''))"
| "cast_string (JArr xs) = Inl ()"
| "cast_string (JObj kvs) =
     (case map_of (rev kvs) ''_id'' of
        Some (JStr s) \<Rightarrow> if s = [] then Inl () else Inr (Some s)
      | _ \<Rightarrow> Inl ())"

text \<open>
  What \<open>save\<close> writes for a \<open>Mixed\<close> path such as \<open>mealTimes\<close>: Mongoose clones the
  document with the schema's default \<open>minimize\<close> option, which drops every property
  whose value is an object left without properties (also nested); an object that is the
  element of an array is kept even when empty. \<open>None\<close> is a path that is not written.
\<close>

fun minimize :: "bool \<Rightarrow> json \<Rightarrow> jsval" where
  "minimize isArrayChild (JObj kvs) =
     (let kept = concat (map (\<lambda>(k, v). case minimize False v of
                                          None \<Rightarrow> []
                                        | Some w \<Rightarrow> [(k, w)]) kvs)
      in if kept = [] then (if isArrayChild then Some (JObj []) else None)
         else Some (JObj kept))"
| "minimize isArrayChild (JArr xs) =
     Some (JArr (map (\<lambda>x. case minimize True x of None \<Rightarrow> x | Some w \<Rightarrow> w) xs))"
| "minimize isArrayChild v = Some v"

section \<open>Tokens\<close>

text \<open>\<open>expiresIn: "7d"\<close>, in seconds.\<close>

definition expiresIn :: nat where
  "expiresIn = 7 * 24 * 60 * 60"

text \<open>\<open>jwt.sign({ id }, process.env.JWT_SECRET, { expiresIn: "7d" })\<close>: the library stamps
  the issue time in seconds and adds the time span for the expiry.\<close>

definition sign_id :: "env \<Rightarrow> nat \<Rightarrow> string" where
  "sign_id e i =
     jwt_sign e \<lparr>jwt_id = i, iat = now e div 1000, exp = now e div 1000 + expiresIn\<rparr>"

text \<open>\<open>req.headers.authorization?.split(" ")[1]\<close>.\<close>

definition bearer :: "request \<Rightarrow> string option" where
  "bearer r =
     (case authorization r of
        None \<Rightarrow> None
      | Some h \<Rightarrow> (case split CHR '' '' h of
                    a # t # rest \<Rightarrow> Some t
                  | _ \<Rightarrow> None))"

section \<open>The routes\<close>

text \<open>
  Each route takes the environment, the store and the request, and returns the response,
  the store after the request and the library calls made. An early \<open>return\<close> of the
  source is a branch that leaves the store as it is. The store itself never fails here,
  so the catch blocks are reached only by \<open>jwt.verify\<close>, by the fetch and by reading
  and saving its answer.
\<close>

subsection \<open>POST /api/signup\<close>

text \<open>\<open>!email || !password\<close> rejects a missing, \<open>null\<close> or empty string.\<close>

definition signup :: "env \<Rightarrow> db \<Rightarrow> request \<Rightarrow> outcome" where
  "signup e d r =
     (case (truthy_str (body_email r), truthy_str (body_password r)) of
        (Some em, Some pw) \<Rightarrow>
          (case findOne em (users d) of
             Some existingUser \<Rightarrow>
               \<lparr>resp = reply 400 False ''Email already in use'', store = d, calls = []\<rparr>
           | None \<Rightarrow>
               let salt = bcrypt_genSalt e 10;
                   h = bcrypt_hash e pw salt;
                   newUser = \<lparr>user_id = next_id d, email = em, passwordHash = h,
                              user_createdAt = now e\<rparr>
               in \<lparr>resp = reply_token (sign_id e (user_id newUser)),
                   store = d\<lparr>users := users d @ [newUser], next_id := Suc (next_id d)\<rparr>,
                   calls = [GenSalt 10, Hash pw salt]\<rparr>)
      | _ \<Rightarrow> \<lparr>resp = reply 400 False ''Email and password required'', store = d, calls = []\<rparr>)"

subsection \<open>POST /api/login\<close>


subsection \<open>POST /api/preferences\<close>

text \<open>\<open>!dietary || !equipment || budget == null || cookingHours == null\<close>: an array is
  truthy even when empty and a number is \<open>== null\<close> never, so at the request's types
  the test holds exactly when one of the four fields is missing or \<open>null\<close>.
  \<open>mealTimes\<close> is written as \<open>save\<close> minimizes it.\<close>

definition savePreferences :: "env \<Rightarrow> db \<Rightarrow> request \<Rightarrow> outcome" where
  "savePreferences e d r =
     (case (body_dietary r, body_equipment r, body_budget r, body_cookingHours r) of
        (Some di, Some eq, Some bu, Some ch) \<Rightarrow>
          let prefs = \<lparr>preference_id = next_id d, dietary = di, equipment = eq, budget = bu,
                       cookingHours = ch,
                       mealTimes = Option.bind (body_mealTimes r) (minimize False),
                       preference_createdAt = now e\<rparr>
          in \<lparr>resp = reply 200 True ''Preferences saved!'',
              store = d\<lparr>preferences := preferences d @ [prefs], next_id := Suc (next_id d)\<rparr>,
              calls = []\<rparr>
      | _ \<Rightarrow> \<lparr>resp = reply 400 False ''Invalid preferences data'', store = d, calls = []\<rparr>)"

subsection \<open>POST /api/recipe\<close>

text \<open>The lines of the prompt template; \<open>prefs\<close> is \<open>None\<close> when no preference document
  exists.\<close>

definition ingredients_line :: "string list \<Rightarrow> string" where
  "ingredients_line ings =
     ''Generate a recipe using these ingredients: '' @ join '', '' ings @ ''.''"

definition dietary_line :: "preference option \<Rightarrow> string" where
  "dietary_line prefs =
     ''- Dietary: '' @ or_str (map_option (\<lambda>p. join '', '' (dietary p)) prefs) ''None''"

definition equipment_line :: "preference option \<Rightarrow> string" where
  "equipment_line prefs =
     ''- Equipment available: '' @
     or_str (map_option (\<lambda>p. join '', '' (equipment p)) prefs) ''Any''"

definition budget_line :: "preference option \<Rightarrow> string" where
  "budget_line prefs = ''- Weekly budget: $'' @ or_num (map_option budget prefs) ''flexible''"

definition cookingHours_line :: "preference option \<Rightarrow> string" where
  "cookingHours_line prefs =
     ''- Cooking hours per week: '' @ or_num (map_option cookingHours prefs) ''flexible''"

definition mealTimes_line :: "preference option \<Rightarrow> string" where
  "mealTimes_line prefs =
     ''- Meal times: '' @ JSON_stringify (js_or (Option.bind prefs mealTimes) (JObj []))"

definition prompt :: "string list \<Rightarrow> preference option \<Rightarrow> string" where
  "prompt ings prefs =
     concat (map (\<lambda>l. l @ [CHR 0x0A])
       [ [],
         ingredients_line ings,
         ''Consider these preferences: '',
         dietary_line prefs,
         equipment_line prefs,
         budget_line prefs,
         cookingHours_line prefs,
         mealTimes_line prefs,
         [],
         ''Include a title, clear ingredients list, and step-by-step instructions.'' ])"

text \<open>\<open>data.output?.[0]?.content?.[0]?.text\<close>, for \<open>data\<close> other than \<open>null\<close>.\<close>

definition nested_text :: "json \<Rightarrow> jsval" where
  "nested_text data =
     opt_chain
       (opt_chain
         (opt_chain
           (opt_chain (get_prop ''output'' data) index0)
           (get_prop ''content''))
         index0)
       (get_prop ''text'')"

text \<open>\<open>data.output?.[0]?.content?.[0]?.text || "No recipe generated."\<close>: the first read,
  \<open>data.output\<close>, is unguarded and throws a TypeError on \<open>null\<close>.\<close>

definition recipe_text :: "json \<Rightarrow> exn + json" where
  "recipe_text data =
     (case data of
        JNull \<Rightarrow> Inl ReadOfNull
      | _ \<Rightarrow> Inr (js_or (nested_text data) (JStr ''No recipe generated.'')))"

definition generate :: "env \<Rightarrow> db \<Rightarrow> request \<Rightarrow> outcome" where
  "generate e d r =
     (case body_ingredients r of
        None \<Rightarrow> \<lparr>resp = reply 400 False ''Ingredients must be an array'', store = d, calls = []\<rparr>
      | Some ings \<Rightarrow>
          let prefs = latest (preferences d);
              p = prompt ings prefs;
              sent = [Post ''gpt-4o-mini'' p]
          in (case fetch e ''gpt-4o-mini'' p of
                Rejected m \<Rightarrow> \<lparr>resp = reply_error (FetchFailed m), store = d, calls = sent\<rparr>
              | Parsed data \<Rightarrow>
                  (case recipe_text data of
                     Inl x \<Rightarrow> \<lparr>resp = reply_error x, store = d, calls = sent\<rparr>
                   | Inr text \<Rightarrow>
                       (case cast_string text of
                          Inl u \<Rightarrow> \<lparr>resp = reply_error (SaveFailed text), store = d, calls = sent\<rparr>
                        | Inr stored \<Rightarrow>
                            let newRecipe = \<lparr>recipe_id = next_id d, ingredients = ings,
                                             recipeText = stored, recipe_createdAt = now e\<rparr>
                            in \<lparr>resp = reply_recipe text,
                                store = d\<lparr>recipes := recipes d @ [newRecipe],
                                          next_id := Suc (next_id d)\<rparr>,
                                calls = sent\<rparr>))))"

subsection \<open>POST /api/update-email\<close>

text \<open>The token test, then \<open>jwt.verify\<close> inside the \<open>try\<close>, then
  \<open>!email || !email.includes("@")\<close>, then the lookup of the new email among all
  users.\<close>

definition updateEmail :: "env \<Rightarrow> db \<Rightarrow> request \<Rightarrow> outcome" where
  "updateEmail e d r =
     (case truthy_str (bearer r) of
        None \<Rightarrow> \<lparr>resp = reply 401 False ''Unauthorized'', store = d, calls = []\<rparr>
      | Some tok \<Rightarrow>
          (case jwt_verify e tok of
             None \<Rightarrow> \<lparr>resp = reply 500 False ''Server error updating email'', store = d, calls = []\<rparr>
           | Some decoded \<Rightarrow>
               (case truthy_str (body_email r) of
                  None \<Rightarrow> \<lparr>resp = reply 400 False ''Invalid email'', store = d, calls = []\<rparr>
                | Some em \<Rightarrow>
                    if includes_str em ''@'' then
                      (case findOne em (users d) of
                         Some existing \<Rightarrow>
                           \<lparr>resp = reply 400 False ''Email already in use'', store = d, calls = []\<rparr>
                       | None \<Rightarrow>
                           \<lparr>resp = reply 200 True ''Email updated successfully'',
                            store = d\<lparr>users :=
                              findByIdAndUpdate (jwt_id decoded) (\<lambda>u. u\<lparr>email := em\<rparr>) (users d)\<rparr>,
                            calls = []\<rparr>)
                    else \<lparr>resp = reply 400 False ''Invalid email'', store = d, calls = []\<rparr>)))"

subsection \<open>POST /api/update-password\<close>

text \<open>\<open>!password || password.length < 6\<close> comes before \<open>genSalt\<close> and \<open>hash\<close>.\<close>

definition updatePassword :: "env \<Rightarrow> db \<Rightarrow> request \<Rightarrow> outcome" where
  "updatePassword e d r =
     (case truthy_str (bearer r) of
        None \<Rightarrow> \<lparr>resp = reply 401 False ''Unauthorized'', store = d, calls = []\<rparr>
      | Some tok \<Rightarrow>
          (case jwt_verify e tok of
             None \<Rightarrow>
               \<lparr>resp = reply 500 False ''Server error updating password'', store = d, calls = []\<rparr>
           | Some decoded \<Rightarrow>
               (case truthy_str (body_password r) of
                  None \<Rightarrow>
                    \<lparr>resp = reply 400 False ''Password must be at least 6 characters'',
                     store = d, calls = []\<rparr>
                | Some pw \<Rightarrow>
                    if length pw < 6 then
                      \<lparr>resp = reply 400 False ''Password must be at least 6 characters'',
                       store = d, calls = []\<rparr>
                    else
                      let salt = bcrypt_genSalt e 10;
                          h = bcrypt_hash e pw salt
                      in \<lparr>resp = reply 200 True ''Password updated successfully'',
                          store = d\<lparr>users :=
                            findByIdAndUpdate (jwt_id decoded) (\<lambda>u. u\<lparr>passwordHash := h\<rparr>)
                              (users d)\<rparr>,
                          calls = [GenSalt 10, Hash pw salt]\<rparr>)))"

section \<open>Vocabulary of the specification\<close>

text \<open>The user a token's \<open>id\<close> names: the caller.\<close>

definition findById :: "nat \<Rightarrow> user list \<Rightarrow> user option" where
  "findById i us = find (\<lambda>u. user_id u = i) us"

text \<open>"The new email lacks an @ character"; an email that was not sent has none.\<close>

definition lacks_at :: "string option \<Rightarrow> bool" where
  "lacks_at em = (case em of None \<Rightarrow> True | Some s \<Rightarrow> CHR ''@'' \<notin> set s)"

text \<open>
  "The response lacks the nested text field": output missing, first output item missing,
  content missing, first content block missing, or its text field missing.
\<close>

definition lacks_text :: "json \<Rightarrow> bool" where
  "lacks_text data =
     (case get_prop ''output'' data of
        None \<Rightarrow> True
      | Some out \<Rightarrow>
          (case index0 out of
             None \<Rightarrow> True
           | Some item \<Rightarrow>
               (case get_prop ''content'' item of
                  None \<Rightarrow> True
                | Some content \<Rightarrow>
                    (case index0 content of
                       None \<Rightarrow> True
                     | Some block \<Rightarrow>
                         (case get_prop ''text'' block of
                            None \<Rightarrow> True
                          | Some t \<Rightarrow> False)))))"

section \<open>Sample inputs\<close>

text \<open>A request with no header and an empty body, a store with one user, and an
  environment with stand-ins for the libraries, used to run the routes on concrete inputs.\<close>

definition no_request :: request where
  "no_request =
     \<lparr>authorization = None, body_email = None, body_password = None, body_dietary = None,
      body_equipment = None, body_budget = None, body_cookingHours = None,
      body_mealTimes = None, body_ingredients = None\<rparr>"

definition ann :: user where
  "ann = \<lparr>user_id = 1, email = ''ann@example.org'', passwordHash = ''salt:secret1'',
          user_createdAt = 0\<rparr>"

definition sample_db :: db where
  "sample_db = \<lparr>recipes = [], preferences = [], users = [ann], next_id = 2\<rparr>"

definition pancakes :: json where
  "pancakes =
     JObj [(''output'', JArr [JObj [(''content'', JArr [JObj [(''text'', JStr ''Pancakes'')]])]])]"

definition sample_env :: env where
  "sample_env =
     \<lparr>now = 1700000000000,
      bcrypt_genSalt = (\<lambda>rounds. ''salt''),
      bcrypt_hash = (\<lambda>pw salt. salt @ '':'' @ pw),
      bcrypt_compare = (\<lambda>pw h. h = ''salt:'' @ pw),
      jwt_sign = (\<lambda>p. ''jwt.'' @ digits (jwt_id p)),
      jwt_verify = (\<lambda>t. if t = ''jwt.1''
                          then Some \<lparr>jwt_id = 1, iat = 1700000000, exp = 1700604800\<rparr>
                          else None),
      fetch = (\<lambda>model input. Parsed pancakes)\<rparr>"

text \<open>Requests and variations of the environment and the store.\<close>

definition unknown_login :: request where
  "unknown_login =
     no_request\<lparr>body_email := Some ''bob@example.org'', body_password := Some ''secret1''\<rparr>"

definition wrong_password_login :: request where
  "wrong_password_login =
     no_request\<lparr>body_email := Some ''ann@example.org'', body_password := Some ''wrong12''\<rparr>"

definition empty_email_signup :: request where
  "empty_email_signup = no_request\<lparr>body_email := Some [], body_password := Some ''secret1''\<rparr>"

definition zero_preferences :: request where
  "zero_preferences =
     no_request\<lparr>body_dietary := Some [], body_equipment := Some [], body_budget := Some 0,
                 body_cookingHours := Some 0\<rparr>"

definition egg_flour :: request where
  "egg_flour = no_request\<lparr>body_ingredients := Some [''egg'', ''flour'']\<rparr>"

definition no_ingredients :: request where
  "no_ingredients = no_request\<lparr>body_ingredients := Some []\<rparr>"

definition garbage_token :: request where
  "garbage_token =
     no_request\<lparr>authorization := Some ''Bearer garbage'', body_email := Some ''new@example.org''\<rparr>"

definition own_email :: request where
  "own_email =
     no_request\<lparr>authorization := Some ''Bearer jwt.1'', body_email := Some ''ann@example.org''\<rparr>"

definition new_email :: request where
  "new_email =
     no_request\<lparr>authorization := Some ''Bearer jwt.1'', body_email := Some ''ann@example.com''\<rparr>"

definition short_password :: request where
  "short_password =
     no_request\<lparr>authorization := Some ''Bearer jwt.1'', body_password := Some ''abcde''\<rparr>"

definition long_password :: request where
  "long_password =
     no_request\<lparr>authorization := Some ''Bearer jwt.1'', body_password := Some ''abcdef''\<rparr>"


definition null_env :: env where
  "null_env = sample_env\<lparr>fetch := (\<lambda>model input. Parsed JNull)\<rparr>"

definition bare_env :: env where
  "bare_env = sample_env\<lparr>fetch := (\<lambda>model input. Parsed (JObj []))\<rparr>"

definition zero_preference :: preference where
  "zero_preference =
     \<lparr>preference_id = 2, dietary = [], equipment = [], budget = 0, cookingHours = 0,
      mealTimes = None, preference_createdAt = 5\<rparr>"

definition zero_db :: db where
  "zero_db = \<lparr>recipes = [], preferences = [zero_preference], users = [ann], next_id = 3\<rparr>"

section \<open>Properties of the routes\<close>

subsection \<open>Auxiliary facts\<close>

lemma includes_str_sublist: "includes_str s sub \<longleftrightarrow> sublist sub s"
  by (induction s) (auto simp: sublist_Cons_right)

lemma includes_at: "includes_str s ''@'' \<longleftrightarrow> CHR ''@'' \<in> set s"
  by (induction s) auto

lemma opt_chain_get_prop: "opt_chain v (get_prop n) = Option.bind v (get_prop n)"
  by (cases v; cases "the v") auto

lemma opt_chain_index0: "opt_chain v index0 = Option.bind v index0"
  by (cases v; cases "the v") auto

lemma lacks_text_iff: "lacks_text data \<longleftrightarrow> nested_text data = None"
  by (simp add: lacks_text_def nested_text_def opt_chain_get_prop opt_chain_index0
      split: option.splits)

lemma findById_update_same:
  "findById i us = Some u \<Longrightarrow> (\<And>v. user_id (f v) = user_id v) \<Longrightarrow>
   findById i (findByIdAndUpdate i f us) = Some (f u)"
  by (induction us) (auto simp: findById_def)

lemma findById_update_other:
  "j \<noteq> i \<Longrightarrow> (\<And>v. user_id (f v) = user_id v) \<Longrightarrow>
   findById j (findByIdAndUpdate i f us) = findById j us"
  by (induction us) (auto simp: findById_def)

lemma findOne_Some_iff: "(\<exists>u. findOne em us = Some u) \<longleftrightarrow> (\<exists>u\<in>set us. email u = em)"
  by (induction us) (auto simp: findOne_def)



lemma prompt_includes_lines:
  "includes_str (prompt ings prefs) (dietary_line prefs)"
  "includes_str (prompt ings prefs) (equipment_line prefs)"
  "includes_str (prompt ings prefs) (budget_line prefs)"
  "includes_str (prompt ings prefs) (cookingHours_line prefs)"
proof -
  let ?head = "CHR 0x0A # ingredients_line ings @ CHR 0x0A # ''Consider these preferences: ''
                 @ [CHR 0x0A]"
  let ?tail = "CHR 0x0A # mealTimes_line prefs @ CHR 0x0A # CHR 0x0A #
                 ''Include a title, clear ingredients list, and step-by-step instructions.''
                 @ [CHR 0x0A]"
  have "prompt ings prefs =
          ?head @ dietary_line prefs @
            (CHR 0x0A # equipment_line prefs @ CHR 0x0A # budget_line prefs @
             CHR 0x0A # cookingHours_line prefs @ ?tail)"
    by (simp add: prompt_def)
  then show "includes_str (prompt ings prefs) (dietary_line prefs)"
    unfolding includes_str_sublist by (metis sublist_appendI)
  have "prompt ings prefs =
          (?head @ dietary_line prefs @ [CHR 0x0A]) @ equipment_line prefs @
            (CHR 0x0A # budget_line prefs @ CHR 0x0A # cookingHours_line prefs @ ?tail)"
    by (simp add: prompt_def)
  then show "includes_str (prompt ings prefs) (equipment_line prefs)"
    unfolding includes_str_sublist by (metis sublist_appendI)
  have "prompt ings prefs =
          (?head @ dietary_line prefs @ CHR 0x0A # equipment_line prefs @ [CHR 0x0A]) @
            budget_line prefs @ (CHR 0x0A # cookingHours_line prefs @ ?tail)"
    by (simp add: prompt_def)
  then show "includes_str (prompt ings prefs) (budget_line prefs)"
    unfolding includes_str_sublist by (metis sublist_appendI)
  have "prompt ings prefs =
          (?head @ dietary_line prefs @ CHR 0x0A # equipment_line prefs @
             CHR 0x0A # budget_line prefs @ [CHR 0x0A]) @
            cookingHours_line prefs @ ?tail"
    by (simp add: prompt_def)
  then show "includes_str (prompt ings prefs) (cookingHours_line prefs)"
    unfolding includes_str_sublist by (metis sublist_appendI)
qed

lemma recipe_text_not_null:
  "data \<noteq> JNull \<Longrightarrow>
   recipe_text data = Inr (js_or (nested_text data) (JStr ''No recipe generated.''))"
  by (cases data) (simp_all add: recipe_text_def)

lemma generate_saved:
  assumes "body_ingredients r = Some ings"
    and "fetch e ''gpt-4o-mini'' (prompt ings (latest (preferences d))) = Parsed data \<and>
         data \<noteq> JNull \<and>
         cast_string (js_or (nested_text data) (JStr ''No recipe generated.'')) = Inr kept"
  shows "resp (generate e d r) =
           reply_recipe (js_or (nested_text data) (JStr ''No recipe generated.''))"
    and "recipes (store (generate e d r)) =
           recipes d @ [\<lparr>recipe_id = next_id d, ingredients = ings, recipeText = kept,
                          recipe_createdAt = now e\<rparr>]"
  using assms by (simp_all add: generate_def Let_def recipe_text_not_null)

lemma generate_failed:
  assumes "body_ingredients r = Some ings"
    and "\<not> (\<exists>data kept.
            fetch e ''gpt-4o-mini'' (prompt ings (latest (preferences d))) = Parsed data \<and>
            data \<noteq> JNull \<and>
            cast_string (js_or (nested_text data) (JStr ''No recipe generated.'')) =
              Inr kept)"
  shows "status (resp (generate e d r)) = 500" and "store (generate e d r) = d"
proof -
  have "status (resp (generate e d r)) = 500 \<and> store (generate e d r) = d"
  proof (cases "fetch e ''gpt-4o-mini'' (prompt ings (latest (preferences d)))")
    case (Rejected m)
    then show ?thesis
      using assms(1) by (simp add: generate_def Let_def reply_error_def)
  next
    case (Parsed data)
    show ?thesis
    proof (cases "data = JNull")
      case True
      then show ?thesis
        using assms(1) Parsed by (simp add: generate_def Let_def reply_error_def recipe_text_def)
    next
      case False
      then have "\<And>kept. cast_string (js_or (nested_text data) (JStr ''No recipe generated.''))
                  \<noteq> Inr kept"
        using assms(2) Parsed by blast
      then obtain u where
        "cast_string (js_or (nested_text data) (JStr ''No recipe generated.'')) = Inl u"
        by (cases "cast_string (js_or (nested_text data) (JStr ''No recipe generated.''))") auto
      then show ?thesis
        using assms(1) Parsed False
        by (simp add: generate_def Let_def reply_error_def recipe_text_not_null)
    qed
  qed
  then show "status (resp (generate e d r)) = 500" and "store (generate e d r) = d"
    by simp_all
qed

lemma updateEmail_missing_token:
  "truthy_str (bearer r) = None \<Longrightarrow>
   resp (updateEmail e d r) = reply 401 False ''Unauthorized'' \<and> store (updateEmail e d r) = d"
  by (simp add: updateEmail_def)

lemma updatePassword_missing_token:
  "truthy_str (bearer r) = None \<Longrightarrow>
   resp (updatePassword e d r) = reply 401 False ''Unauthorized'' \<and>
   store (updatePassword e d r) = d"
  by (simp add: updatePassword_def)

subsection \<open>Login\<close>



subsection \<open>Signup\<close>

text \<open>
  C4, as the claim states it, fails: an email that is present but empty is neither absent
  nor in use, and signup answers 400 "Email and password required" and stores nothing.
\<close>

theorem signup_empty_email_rejected:
  "body_email empty_email_signup = Some [] \<and>
   body_password empty_email_signup = Some ''secret1'' \<and>
   findOne [] (users sample_db) = None \<and>
   resp (signup sample_env sample_db empty_email_signup) =
     reply 400 False ''Email and password required'' \<and>
   store (signup sample_env sample_db empty_email_signup) = sample_db"
  by (simp add: signup_def empty_email_signup_def no_request_def sample_db_def ann_def
      findOne_def)

text \<open>
  C4, amended. Signup answers 400 and stores nothing when the email or the password is
  absent or empty; it answers 400 and stores nothing when the email is already in use;
  otherwise it appends one user whose password hash is the bcrypt hash of the password
  under a salt of cost 10, and returns a token signed over the new user's identifier, the
  issue time and an expiry 7 days (604800 seconds) later.
\<close>

theorem signup_cases:
  "(truthy_str (body_email r) = None \<or> truthy_str (body_password r) = None \<longrightarrow>
      resp (signup e d r) = reply 400 False ''Email and password required'' \<and>
      store (signup e d r) = d) \<and>
   (\<forall>em pw u. truthy_str (body_email r) = Some em \<and> truthy_str (body_password r) = Some pw \<and>
      findOne em (users d) = Some u \<longrightarrow>
      resp (signup e d r) = reply 400 False ''Email already in use'' \<and>
      store (signup e d r) = d) \<and>
   (\<forall>em pw. truthy_str (body_email r) = Some em \<and> truthy_str (body_password r) = Some pw \<and>
      findOne em (users d) = None \<longrightarrow>
      users (store (signup e d r)) =
        users d @ [\<lparr>user_id = next_id d, email = em,
                     passwordHash = bcrypt_hash e pw (bcrypt_genSalt e 10),
                     user_createdAt = now e\<rparr>] \<and>
      calls (signup e d r) = [GenSalt 10, Hash pw (bcrypt_genSalt e 10)] \<and>
      (\<exists>p. resp (signup e d r) = reply_token (jwt_sign e p) \<and>
           jwt_id p = next_id d \<and> iat p = now e div 1000 \<and> exp p = iat p + 604800))"
  by (auto simp: signup_def Let_def sign_id_def expiresIn_def split: option.splits)

theorem signup_cases_witness:
  "users (store (signup sample_env sample_db unknown_login)) =
     [ann, \<lparr>user_id = 2, email = ''bob@example.org'', passwordHash = ''salt:secret1'',
            user_createdAt = 1700000000000\<rparr>] \<and>
   calls (signup sample_env sample_db unknown_login) = [GenSalt 10, Hash ''secret1'' ''salt''] \<and>
   resp (signup sample_env sample_db wrong_password_login) =
     reply 400 False ''Email already in use'' \<and>
   store (signup sample_env sample_db wrong_password_login) = sample_db"
proof -
  have a: "truthy_str (body_email unknown_login) = Some ''bob@example.org'' \<and>
           truthy_str (body_password unknown_login) = Some ''secret1'' \<and>
           findOne ''bob@example.org'' (users sample_db) = None"
    by (simp add: unknown_login_def no_request_def sample_db_def ann_def findOne_def)
  have b: "truthy_str (body_email wrong_password_login) = Some ''ann@example.org'' \<and>
           truthy_str (body_password wrong_password_login) = Some ''wrong12'' \<and>
           findOne ''ann@example.org'' (users sample_db) = Some ann"
    by (simp add: wrong_password_login_def no_request_def sample_db_def ann_def findOne_def)
  have "users (store (signup sample_env sample_db unknown_login)) =
          users sample_db @
            [\<lparr>user_id = next_id sample_db, email = ''bob@example.org'',
              passwordHash = bcrypt_hash sample_env ''secret1'' (bcrypt_genSalt sample_env 10),
              user_createdAt = now sample_env\<rparr>] \<and>
        calls (signup sample_env sample_db unknown_login) =
          [GenSalt 10, Hash ''secret1'' (bcrypt_genSalt sample_env 10)]"
    using signup_cases [of unknown_login sample_env sample_db] a by blast
  moreover have "resp (signup sample_env sample_db wrong_password_login) =
       reply 400 False ''Email already in use'' \<and>
     store (signup sample_env sample_db wrong_password_login) = sample_db"
    using signup_cases [of wrong_password_login sample_env sample_db] b by blast
  ultimately show ?thesis
    by (simp add: sample_db_def sample_env_def)
qed

subsection \<open>Preferences\<close>

text \<open>
  C7. savePreferences answers 400 exactly when dietary or equipment is absent or budget or
  cookingHours is null or undefined, so a budget of zero and zero cooking hours pass; a
  rejected submission leaves the store as it was, and an accepted one appends one
  PreferenceSet built from the request, so that the count grows by one and every record
  stored before is still there, unchanged and in place.
\<close>

theorem savePreferences_validation_and_frame:
  "(status (resp (savePreferences e d r)) = 400) =
     (body_dietary r = None \<or> body_equipment r = None \<or>
      body_budget r = None \<or> body_cookingHours r = None) \<and>
   (status (resp (savePreferences e d r)) = 400 \<longrightarrow> store (savePreferences e d r) = d) \<and>
   (status (resp (savePreferences e d r)) \<noteq> 400 \<longrightarrow>
      resp (savePreferences e d r) = reply 200 True ''Preferences saved!'' \<and>
      length (preferences (store (savePreferences e d r))) = Suc (length (preferences d)) \<and>
      take (length (preferences d)) (preferences (store (savePreferences e d r))) =
        preferences d \<and>
      users (store (savePreferences e d r)) = users d \<and>
      recipes (store (savePreferences e d r)) = recipes d) \<and>
   (\<forall>di eq bu ch. body_dietary r = Some di \<and> body_equipment r = Some eq \<and>
      body_budget r = Some bu \<and> body_cookingHours r = Some ch \<longrightarrow>
      preferences (store (savePreferences e d r)) =
        preferences d @ [\<lparr>preference_id = next_id d, dietary = di, equipment = eq,
                           budget = bu, cookingHours = ch,
                           mealTimes = Option.bind (body_mealTimes r) (minimize False),
                           preference_createdAt = now e\<rparr>])"
  by (auto simp: savePreferences_def reply_def Let_def split: option.splits)

theorem savePreferences_validation_and_frame_witness:
  "status (resp (savePreferences sample_env zero_db zero_preferences)) \<noteq> 400 \<and>
   length (preferences (store (savePreferences sample_env zero_db zero_preferences))) = 2 \<and>
   take 1 (preferences (store (savePreferences sample_env zero_db zero_preferences))) =
     [zero_preference] \<and>
   status (resp (savePreferences sample_env zero_db no_request)) = 400 \<and>
   store (savePreferences sample_env zero_db no_request) = zero_db"
proof -
  have a: "body_dietary zero_preferences \<noteq> None \<and> body_equipment zero_preferences \<noteq> None \<and>
           body_budget zero_preferences \<noteq> None \<and> body_cookingHours zero_preferences \<noteq> None"
    by (simp add: zero_preferences_def no_request_def)
  have b: "body_dietary no_request = None"
    by (simp add: no_request_def)
  have l: "length (preferences zero_db) = 1" "preferences zero_db = [zero_preference]"
    by (simp_all add: zero_db_def)
  have "status (resp (savePreferences sample_env zero_db zero_preferences)) \<noteq> 400"
    using savePreferences_validation_and_frame [of sample_env zero_db zero_preferences] a
    by blast
  then have
    "status (resp (savePreferences sample_env zero_db zero_preferences)) \<noteq> 400 \<and>
     length (preferences (store (savePreferences sample_env zero_db zero_preferences))) =
       Suc (length (preferences zero_db)) \<and>
     take (length (preferences zero_db))
       (preferences (store (savePreferences sample_env zero_db zero_preferences))) =
       preferences zero_db"
    using savePreferences_validation_and_frame [of sample_env zero_db zero_preferences]
    by blast
  moreover have "status (resp (savePreferences sample_env zero_db no_request)) = 400 \<and>
     store (savePreferences sample_env zero_db no_request) = zero_db"
    using savePreferences_validation_and_frame [of sample_env zero_db no_request] b by blast
  ultimately show ?thesis
    using l by simp
qed

subsection \<open>Recipe generation\<close>




text \<open>
  C10, as the claim states it, fails: with the empty ingredients list and an endpoint
  that answers \<open>null\<close>, the answer is 500 and no Recipe is persisted.
\<close>

theorem generate_empty_ingredients_null_body:
  "body_ingredients no_ingredients = Some [] \<and>
   fetch null_env ''gpt-4o-mini'' (prompt [] (latest (preferences sample_db))) = Parsed JNull \<and>
   calls (generate null_env sample_db no_ingredients) =
     [Post ''gpt-4o-mini'' (prompt [] (latest (preferences sample_db)))] \<and>
   status (resp (generate null_env sample_db no_ingredients)) = 500 \<and>
   recipes (store (generate null_env sample_db no_ingredients)) = recipes sample_db"
  by (simp add: generate_def Let_def no_ingredients_def no_request_def null_env_def
      sample_env_def recipe_text_def reply_error_def)

text \<open>
  C10, amended. generate accepts the empty ingredients list: the answer is never the 400
  of the validation, and the prompt that is posted starts with the ingredients line in
  which the ingredients segment is the empty string. Provided the external call returns
  a JSON body other than \<open>null\<close> and the text read from it (or the default text) is one
  the store can cast to a string, a Recipe with ingredients [] is persisted and the
  answer is the 200 success envelope; otherwise the answer is 500 and the store is left
  as it was.
\<close>

theorem generate_empty_ingredients:
  assumes "body_ingredients r = Some []"
  shows "status (resp (generate e d r)) \<noteq> 400 \<and>
         calls (generate e d r) = [Post ''gpt-4o-mini'' (prompt [] (latest (preferences d)))] \<and>
         prefix (''\<newline>Generate a recipe using these ingredients: '' @ [] @
                 ''.\<newline>Consider these preferences: \<newline>'')
           (prompt [] (latest (preferences d))) \<and>
         join '', '' [] = [] \<and>
         ingredients_line [] = ''Generate a recipe using these ingredients: .'' \<and>
         (\<forall>data kept.
            fetch e ''gpt-4o-mini'' (prompt [] (latest (preferences d))) = Parsed data \<and>
            data \<noteq> JNull \<and>
            cast_string (js_or (nested_text data) (JStr ''No recipe generated.'')) = Inr kept \<longrightarrow>
            resp (generate e d r) =
              reply_recipe (js_or (nested_text data) (JStr ''No recipe generated.'')) \<and>
            status (resp (generate e d r)) = 200 \<and>
            recipes (store (generate e d r)) =
              recipes d @ [\<lparr>recipe_id = next_id d, ingredients = [],
                             recipeText = kept, recipe_createdAt = now e\<rparr>]) \<and>
         (\<not> (\<exists>data kept.
               fetch e ''gpt-4o-mini'' (prompt [] (latest (preferences d))) = Parsed data \<and>
               data \<noteq> JNull \<and>
               cast_string (js_or (nested_text data) (JStr ''No recipe generated.'')) =
                 Inr kept) \<longrightarrow>
            status (resp (generate e d r)) = 500 \<and> store (generate e d r) = d)"
  apply (intro conjI allI impI)
  subgoal using assms
    by (auto simp: generate_def Let_def reply_error_def reply_recipe_def
        split: fetched.splits sum.splits)
  subgoal using assms by (simp add: generate_def Let_def split: fetched.splits sum.splits)
  subgoal by (simp add: prompt_def ingredients_line_def)
  subgoal by simp
  subgoal by (simp add: ingredients_line_def)
  subgoal using generate_saved [OF assms, of e d] by simp
  subgoal using generate_saved [OF assms, of e d] by (simp add: reply_recipe_def)
  subgoal using generate_saved [OF assms, of e d] by simp
  subgoal using generate_failed [OF assms, of e d] by simp
  subgoal using generate_failed [OF assms, of e d] by simp
  done

theorem generate_empty_ingredients_witness:
  "status (resp (generate sample_env sample_db no_ingredients)) = 200 \<and>
   calls (generate sample_env sample_db no_ingredients) =
     [Post ''gpt-4o-mini'' (prompt [] None)] \<and>
   prefix ''\<newline>Generate a recipe using these ingredients: .\<newline>Consider these preferences: \<newline>''
     (prompt [] None) \<and>
   resp (generate sample_env sample_db no_ingredients) = reply_recipe (JStr ''Pancakes'') \<and>
   recipes (store (generate sample_env sample_db no_ingredients)) =
     [\<lparr>recipe_id = 2, ingredients = [], recipeText = Some ''Pancakes'',
       recipe_createdAt = 1700000000000\<rparr>]"
proof -
  have a: "body_ingredients no_ingredients = Some []"
    by (simp add: no_ingredients_def no_request_def)
  have l: "latest (preferences sample_db) = None"
    by (simp add: sample_db_def)
  have t: "js_or (nested_text pancakes) (JStr ''No recipe generated.'') = JStr ''Pancakes''"
    by (simp add: pancakes_def nested_text_def)
  have c: "fetch sample_env ''gpt-4o-mini'' (prompt [] (latest (preferences sample_db))) =
             Parsed pancakes \<and>
           pancakes \<noteq> JNull \<and>
           cast_string (js_or (nested_text pancakes) (JStr ''No recipe generated.'')) =
             Inr (Some ''Pancakes'')"
    unfolding t by (simp add: sample_env_def pancakes_def)
  have "status (resp (generate sample_env sample_db no_ingredients)) = 200 \<and>
        calls (generate sample_env sample_db no_ingredients) =
          [Post ''gpt-4o-mini'' (prompt [] (latest (preferences sample_db)))] \<and>
        prefix (''\<newline>Generate a recipe using these ingredients: '' @ [] @
                ''.\<newline>Consider these preferences: \<newline>'')
          (prompt [] (latest (preferences sample_db))) \<and>
        resp (generate sample_env sample_db no_ingredients) =
          reply_recipe (js_or (nested_text pancakes) (JStr ''No recipe generated.'')) \<and>
        recipes (store (generate sample_env sample_db no_ingredients)) =
          recipes sample_db @
            [\<lparr>recipe_id = next_id sample_db, ingredients = [],
              recipeText = Some ''Pancakes'', recipe_createdAt = now sample_env\<rparr>]"
    using generate_empty_ingredients [OF a, of sample_env sample_db] c by blast
  moreover have "recipes sample_db = []" "next_id sample_db = 2"
    "now sample_env = 1700000000000"
    by (simp_all add: sample_db_def sample_env_def)
  ultimately show ?thesis
    using t l by (simp add: reply_recipe_def)
qed

text \<open>
  C9. When a PreferenceSet exists, generate posts the prompt built from the latest one,
  which contains its four preference lines, and each falsy field of it renders the
  placeholder: a budget of 0 gives "$flexible",
  cookingHours of 0 gives "flexible", an empty dietary list gives "None" and an empty
  equipment list gives "Any". savePreferences accepts and stores exactly such values.
\<close>

theorem falsy_preferences_render_placeholders:
  assumes "latest (preferences d) = Some p" and "body_ingredients r = Some ings"
  shows "calls (generate e d r) = [Post ''gpt-4o-mini'' (prompt ings (Some p))] \<and>
         includes_str (prompt ings (Some p)) (dietary_line (Some p)) \<and>
         includes_str (prompt ings (Some p)) (equipment_line (Some p)) \<and>
         includes_str (prompt ings (Some p)) (budget_line (Some p)) \<and>
         includes_str (prompt ings (Some p)) (cookingHours_line (Some p)) \<and>
         (budget p = 0 \<longrightarrow> budget_line (Some p) = ''- Weekly budget: $flexible'') \<and>
         (cookingHours p = 0 \<longrightarrow>
            cookingHours_line (Some p) = ''- Cooking hours per week: flexible'') \<and>
         (dietary p = [] \<longrightarrow> dietary_line (Some p) = ''- Dietary: None'') \<and>
         (equipment p = [] \<longrightarrow> equipment_line (Some p) = ''- Equipment available: Any'') \<and>
         (\<forall>e' d' r'. body_dietary r' = Some [] \<and> body_equipment r' = Some [] \<and>
            body_budget r' = Some 0 \<and> body_cookingHours r' = Some 0 \<longrightarrow>
            resp (savePreferences e' d' r') = reply 200 True ''Preferences saved!'' \<and>
            preferences (store (savePreferences e' d' r')) =
              preferences d' @ [\<lparr>preference_id = next_id d', dietary = [], equipment = [],
                                 budget = 0, cookingHours = 0,
                                 mealTimes = Option.bind (body_mealTimes r') (minimize False),
                                 preference_createdAt = now e'\<rparr>])"
  apply (intro conjI allI impI)
  subgoal using assms by (simp add: generate_def Let_def split: fetched.splits sum.splits)
  subgoal by (rule prompt_includes_lines)
  subgoal by (rule prompt_includes_lines)
  subgoal by (rule prompt_includes_lines)
  subgoal by (rule prompt_includes_lines)
  subgoal by (simp add: budget_line_def)
  subgoal by (simp add: cookingHours_line_def)
  subgoal by (simp add: dietary_line_def)
  subgoal by (simp add: equipment_line_def)
  subgoal by (simp add: savePreferences_def)
  subgoal by (simp add: savePreferences_def)
  done

theorem falsy_preferences_render_placeholders_witness:
  "calls (generate sample_env zero_db egg_flour) =
     [Post ''gpt-4o-mini'' (prompt [''egg'', ''flour''] (Some zero_preference))] \<and>
   budget_line (Some zero_preference) = ''- Weekly budget: $flexible'' \<and>
   cookingHours_line (Some zero_preference) = ''- Cooking hours per week: flexible'' \<and>
   dietary_line (Some zero_preference) = ''- Dietary: None'' \<and>
   equipment_line (Some zero_preference) = ''- Equipment available: Any'' \<and>
   resp (savePreferences sample_env sample_db zero_preferences) =
     reply 200 True ''Preferences saved!''"
proof -
  have a: "latest (preferences zero_db) = Some zero_preference"
    by (simp add: zero_db_def)
  have b: "body_ingredients egg_flour = Some [''egg'', ''flour'']"
    by (simp add: egg_flour_def no_request_def)
  have z: "budget zero_preference = 0" "cookingHours zero_preference = 0"
    "dietary zero_preference = []" "equipment zero_preference = []"
    by (simp_all add: zero_preference_def)
  have s: "body_dietary zero_preferences = Some [] \<and> body_equipment zero_preferences = Some [] \<and>
           body_budget zero_preferences = Some 0 \<and> body_cookingHours zero_preferences = Some 0"
    by (simp add: zero_preferences_def no_request_def)
  show ?thesis
    using falsy_preferences_render_placeholders [OF a b, of sample_env] z s by blast
qed

text \<open>
  C2, as the claim states it, fails: the body \<open>null\<close> lacks the nested text field (it has
  no output), the unguarded read \<open>data.output\<close> throws, and generate answers 500 and
  stores no Recipe.
\<close>

theorem generate_null_body_500:
  "body_ingredients egg_flour = Some [''egg'', ''flour''] \<and>
   fetch null_env ''gpt-4o-mini'' (prompt [''egg'', ''flour''] (latest (preferences sample_db))) =
     Parsed JNull \<and>
   lacks_text JNull \<and>
   resp (generate null_env sample_db egg_flour) = reply_error ReadOfNull \<and>
   status (resp (generate null_env sample_db egg_flour)) = 500 \<and>
   store (generate null_env sample_db egg_flour) = sample_db"
  by (simp add: generate_def Let_def egg_flour_def no_request_def null_env_def sample_env_def
      lacks_text_def recipe_text_def reply_error_def)

text \<open>
  C2, amended. When the endpoint's JSON body is not \<open>null\<close> and lacks the nested text field
  (output missing, first output item missing, content missing, first content block
  missing, or its text field missing), generate answers the 200 success envelope with the
  recipe text "No recipe generated." and appends a Recipe with that text.
\<close>

theorem generate_defaults_missing_text:
  assumes "body_ingredients r = Some ings"
    and "fetch e ''gpt-4o-mini'' (prompt ings (latest (preferences d))) = Parsed data"
    and "data \<noteq> JNull" and "lacks_text data"
  shows "resp (generate e d r) = reply_recipe (JStr ''No recipe generated.'') \<and>
         status (resp (generate e d r)) = 200 \<and>
         recipes (store (generate e d r)) =
           recipes d @ [\<lparr>recipe_id = next_id d, ingredients = ings,
                          recipeText = Some ''No recipe generated.'',
                          recipe_createdAt = now e\<rparr>]"
proof -
  have "nested_text data = None"
    using assms(4) by (simp add: lacks_text_iff)
  then have "recipe_text data = Inr (JStr ''No recipe generated.'')"
    using assms(3) by (cases data) (simp_all add: recipe_text_def)
  then show ?thesis
    using assms(1,2) by (simp add: generate_def Let_def reply_recipe_def)
qed

theorem generate_defaults_missing_text_witness:
  "resp (generate bare_env sample_db egg_flour) = reply_recipe (JStr ''No recipe generated.'') \<and>
   status (resp (generate bare_env sample_db egg_flour)) = 200 \<and>
   recipes (store (generate bare_env sample_db egg_flour)) =
     [\<lparr>recipe_id = 2, ingredients = [''egg'', ''flour''],
       recipeText = Some ''No recipe generated.'', recipe_createdAt = 1700000000000\<rparr>]"
proof -
  have a: "body_ingredients egg_flour = Some [''egg'', ''flour'']"
    by (simp add: egg_flour_def no_request_def)
  have b: "fetch bare_env ''gpt-4o-mini''
             (prompt [''egg'', ''flour''] (latest (preferences sample_db))) = Parsed (JObj [])"
    by (simp add: bare_env_def sample_env_def)
  have c: "JObj [] \<noteq> JNull" and d: "lacks_text (JObj [])"
    by (simp_all add: lacks_text_def)
  have "recipes sample_db = []" "next_id sample_db = 2" "now bare_env = 1700000000000"
    by (simp_all add: sample_db_def bare_env_def sample_env_def)
  then show ?thesis
    using generate_defaults_missing_text [OF a b c d] by (simp add: reply_recipe_def)
qed

subsection \<open>Profile updates\<close>

text \<open>
  C1. A request to /api/update-email whose bearer token is present but does not verify
  (bad signature, malformed, expired): the store is left as it was, but \<open>jwt.verify\<close>
  throws into the route's catch block and the answer is 500 "Server error updating
  email", not the 401 "Unauthorized" that a missing token gets.
\<close>

theorem updateEmail_unverified_token_500:
  assumes "truthy_str (bearer r) = Some tok" and "jwt_verify e tok = None"
  shows "resp (updateEmail e d r) = reply 500 False ''Server error updating email'' \<and>
         status (resp (updateEmail e d r)) = 500 \<and>
         store (updateEmail e d r) = d"
  using assms by (simp add: updateEmail_def reply_def)

theorem updateEmail_unverified_token_500_witness:
  "authorization garbage_token = Some ''Bearer garbage'' \<and>
   jwt_verify sample_env ''garbage'' = None \<and>
   resp (updateEmail sample_env sample_db garbage_token) =
     reply 500 False ''Server error updating email'' \<and>
   status (resp (updateEmail sample_env sample_db garbage_token)) = 500 \<and>
   store (updateEmail sample_env sample_db garbage_token) = sample_db"
proof -
  have a: "truthy_str (bearer garbage_token) = Some ''garbage''"
    by (simp add: bearer_def garbage_token_def no_request_def)
  have b: "jwt_verify sample_env ''garbage'' = None"
    by (simp add: sample_env_def)
  have c: "authorization garbage_token = Some ''Bearer garbage''"
    by (simp add: garbage_token_def no_request_def)
  show ?thesis
    using updateEmail_unverified_token_500 [OF a b, of sample_db] b c by blast
qed

text \<open>
  C6, as the claim states it, fails: the caller sends the email they already have, which
  belongs to no user other than the caller, and the answer is 400 "Email already in use".
\<close>

theorem updateEmail_own_email_in_use:
  "truthy_str (bearer own_email) = Some ''jwt.1'' \<and>
   map_option jwt_id (jwt_verify sample_env ''jwt.1'') = Some 1 \<and>
   findById 1 (users sample_db) = Some ann \<and>
   body_email own_email = Some (email ann) \<and>
   filter (\<lambda>u. email u = email ann \<and> user_id u \<noteq> 1) (users sample_db) = [] \<and>
   resp (updateEmail sample_env sample_db own_email) =
     reply 400 False ''Email already in use''"
  by (simp add: updateEmail_def bearer_def own_email_def no_request_def sample_env_def
      sample_db_def ann_def findById_def findOne_def)

text \<open>
  C6, amended. With a token that verifies, updateEmail answers 400 "Invalid email" exactly
  when the new email lacks an "@" character, and 400 "Email already in use" exactly when
  the new email has an "@" and is the email of some user in the store, the caller
  included. Otherwise it answers 200 and overwrites the email of the user the token
  names, and no other field. Whenever the answer is not 200 the store is left as it was.
\<close>

theorem updateEmail_cases:
  assumes "truthy_str (bearer r) = Some tok" and "jwt_verify e tok = Some decoded"
  shows "(resp (updateEmail e d r) = reply 400 False ''Invalid email'') =
           lacks_at (body_email r) \<and>
         (resp (updateEmail e d r) = reply 400 False ''Email already in use'') =
           (\<not> lacks_at (body_email r) \<and>
            (\<exists>u\<in>set (users d). body_email r = Some (email u))) \<and>
         (\<forall>em. body_email r = Some em \<and> CHR ''@'' \<in> set em \<and>
               findOne em (users d) = None \<longrightarrow>
            resp (updateEmail e d r) = reply 200 True ''Email updated successfully'' \<and>
            store (updateEmail e d r) =
              d\<lparr>users :=
                  findByIdAndUpdate (jwt_id decoded) (\<lambda>u. u\<lparr>email := em\<rparr>) (users d)\<rparr> \<and>
            (\<forall>u. findById (jwt_id decoded) (users d) = Some u \<longrightarrow>
                 findById (jwt_id decoded) (users (store (updateEmail e d r))) =
                   Some (u\<lparr>email := em\<rparr>))) \<and>
         (status (resp (updateEmail e d r)) \<noteq> 200 \<longrightarrow> store (updateEmail e d r) = d)"
proof (cases "truthy_str (body_email r)")
  case None
  then have "lacks_at (body_email r)"
    by (cases "body_email r") (auto simp: lacks_at_def split: if_splits)
  moreover have "\<And>em. body_email r = Some em \<Longrightarrow> CHR ''@'' \<notin> set em"
    using None by (auto split: if_splits)
  ultimately show ?thesis
    using assms None by (auto simp: updateEmail_def reply_def)
next
  case (Some em)
  then have em: "body_email r = Some em" "em \<noteq> []"
    by (cases "body_email r"; auto split: if_splits)+
  show ?thesis
  proof (cases "CHR ''@'' \<in> set em")
    case False
    then show ?thesis
      using assms Some em by (auto simp: updateEmail_def reply_def lacks_at_def includes_at)
  next
    case True
    show ?thesis
    proof (cases "findOne em (users d)")
      case None
      then have "\<forall>u\<in>set (users d). email u \<noteq> em"
        using findOne_Some_iff [of em "users d"] by auto
      then show ?thesis
        using assms Some em True None
        by (auto simp: updateEmail_def reply_def lacks_at_def includes_at findById_update_same)
    next
      case (Some u)
      then have "\<exists>u\<in>set (users d). email u = em"
        using findOne_Some_iff [of em "users d"] by auto
      then show ?thesis
        using assms \<open>truthy_str (body_email r) = Some em\<close> em True Some
        by (auto simp: updateEmail_def reply_def lacks_at_def includes_at)
    qed
  qed
qed

theorem updateEmail_cases_witness:
  "resp (updateEmail sample_env sample_db new_email) =
     reply 200 True ''Email updated successfully'' \<and>
   users (store (updateEmail sample_env sample_db new_email)) =
     [ann\<lparr>email := ''ann@example.com''\<rparr>] \<and>
   findById 1 (users (store (updateEmail sample_env sample_db new_email))) =
     Some (ann\<lparr>email := ''ann@example.com''\<rparr>)"
proof -
  let ?p = "\<lparr>jwt_id = 1, iat = 1700000000, exp = 1700604800\<rparr>"
  have a: "truthy_str (bearer new_email) = Some ''jwt.1''"
    by (simp add: bearer_def new_email_def no_request_def)
  have b: "jwt_verify sample_env ''jwt.1'' = Some ?p"
    by (simp add: sample_env_def)
  have c: "body_email new_email = Some ''ann@example.com'' \<and>
           CHR ''@'' \<in> set ''ann@example.com'' \<and>
           findOne ''ann@example.com'' (users sample_db) = None"
    by (simp add: new_email_def no_request_def sample_db_def ann_def findOne_def)
  have f: "findById (jwt_id ?p) (users sample_db) = Some ann"
    by (simp add: sample_db_def findById_def ann_def)
  have "resp (updateEmail sample_env sample_db new_email) =
          reply 200 True ''Email updated successfully'' \<and>
        store (updateEmail sample_env sample_db new_email) =
          sample_db\<lparr>users :=
            findByIdAndUpdate (jwt_id ?p) (\<lambda>u. u\<lparr>email := ''ann@example.com''\<rparr>)
              (users sample_db)\<rparr> \<and>
        findById (jwt_id ?p) (users (store (updateEmail sample_env sample_db new_email))) =
          Some (ann\<lparr>email := ''ann@example.com''\<rparr>)"
    using updateEmail_cases [OF a b, of sample_db] c f by blast
  then show ?thesis
    by (simp add: sample_db_def ann_def findById_def)
qed

text \<open>
  C8. With a token that verifies, updatePassword answers a password of fewer than 6
  characters with 400, leaves the store as it was and calls neither \<open>genSalt\<close> nor
  \<open>hash\<close>; a password of 6 characters or more is hashed under a fresh salt of cost 10
  and the hash replaces the passwordHash of the user the token names.
\<close>

theorem updatePassword_length_check:
  assumes "truthy_str (bearer r) = Some tok" and "jwt_verify e tok = Some decoded"
    and "body_password r = Some pw"
  shows "(length pw < 6 \<longrightarrow>
            resp (updatePassword e d r) =
              reply 400 False ''Password must be at least 6 characters'' \<and>
            store (updatePassword e d r) = d \<and>
            calls (updatePassword e d r) = []) \<and>
         (6 \<le> length pw \<longrightarrow>
            resp (updatePassword e d r) = reply 200 True ''Password updated successfully'' \<and>
            calls (updatePassword e d r) = [GenSalt 10, Hash pw (bcrypt_genSalt e 10)] \<and>
            store (updatePassword e d r) =
              d\<lparr>users :=
                  findByIdAndUpdate (jwt_id decoded)
                    (\<lambda>u. u\<lparr>passwordHash := bcrypt_hash e pw (bcrypt_genSalt e 10)\<rparr>)
                    (users d)\<rparr> \<and>
            (\<forall>u. findById (jwt_id decoded) (users d) = Some u \<longrightarrow>
                 findById (jwt_id decoded) (users (store (updatePassword e d r))) =
                   Some (u\<lparr>passwordHash := bcrypt_hash e pw (bcrypt_genSalt e 10)\<rparr>)))"
  using assms
  by (auto simp: updatePassword_def Let_def findById_update_same)

theorem updatePassword_length_check_witness:
  "resp (updatePassword sample_env sample_db short_password) =
     reply 400 False ''Password must be at least 6 characters'' \<and>
   store (updatePassword sample_env sample_db short_password) = sample_db \<and>
   calls (updatePassword sample_env sample_db short_password) = [] \<and>
   resp (updatePassword sample_env sample_db long_password) =
     reply 200 True ''Password updated successfully'' \<and>
   calls (updatePassword sample_env sample_db long_password) =
     [GenSalt 10, Hash ''abcdef'' ''salt''] \<and>
   users (store (updatePassword sample_env sample_db long_password)) =
     [ann\<lparr>passwordHash := ''salt:abcdef''\<rparr>]"
proof -
  have a: "truthy_str (bearer short_password) = Some ''jwt.1''"
    and a': "truthy_str (bearer long_password) = Some ''jwt.1''"
    by (simp_all add: bearer_def short_password_def long_password_def no_request_def)
  have b: "jwt_verify sample_env ''jwt.1'' =
             Some \<lparr>jwt_id = 1, iat = 1700000000, exp = 1700604800\<rparr>"
    by (simp add: sample_env_def)
  have c: "body_password short_password = Some ''abcde''"
    and c': "body_password long_password = Some ''abcdef''"
    by (simp_all add: short_password_def long_password_def no_request_def)
  have "resp (updatePassword sample_env sample_db short_password) =
          reply 400 False ''Password must be at least 6 characters'' \<and>
        store (updatePassword sample_env sample_db short_password) = sample_db \<and>
        calls (updatePassword sample_env sample_db short_password) = []"
    using updatePassword_length_check [OF a b c, of sample_db] by simp
  moreover have "resp (updatePassword sample_env sample_db long_password) =
          reply 200 True ''Password updated successfully'' \<and>
        calls (updatePassword sample_env sample_db long_password) =
          [GenSalt 10, Hash ''abcdef'' (bcrypt_genSalt sample_env 10)] \<and>
        store (updatePassword sample_env sample_db long_password) =
          sample_db\<lparr>users :=
            findByIdAndUpdate 1
              (\<lambda>u. u\<lparr>passwordHash :=
                         bcrypt_hash sample_env ''abcdef'' (bcrypt_genSalt sample_env 10)\<rparr>)
              (users sample_db)\<rparr>"
    using updatePassword_length_check [OF a' b c', of sample_db] by simp
  ultimately show ?thesis
    by (simp add: sample_db_def sample_env_def ann_def)
qed

end
